theory Spec2Isabelle
  imports Complex_Main
begin

section \<open>The notebook \<open>How_to_stream_completions.ipynb\<close>\<close>

text \<open>
  The repository is one Jupyter notebook. Its code cells are embedded here as functions on
  an explicit notebook state: the process environment, the wall clock, the requests sent to
  the inference service, the output area of the running cell, and the global names that one
  cell assigns and another (or a later statement) reads. A name that has not been assigned
  is \<open>None\<close>, and reading it raises \<open>NameError\<close>, as in Python. Names that a cell assigns
  before it reads them, and that nothing else reads (\<open>start_time\<close>, \<open>response_time\<close>,
  \<open>chunk\<close>, \<open>chunk_message\<close>, \<open>reply\<close>, \<open>reply_content\<close>), are bound by \<open>let\<close>.

  The SDK (\<open>openai\<close>), \<open>dotenv\<close> and the service behind them are not part of the repository.
  Their objects appear with the fields the notebook reads; what they do is a parameter:
  \<open>load_dotenv\<close> for the effect of \<open>dotenv.load_dotenv()\<close> on the environment,
  \<open>OpenAI\<close> for the constructor of the client, which reads the environment and may
  raise, a \<open>transport\<close> for what the service answers, a \<open>clock\<close> for \<open>time.time()\<close>.
\<close>

subsection \<open>Objects of the SDK\<close>

text \<open>A message of a request: the dict \<open>{'role': ..., 'content': ...}\<close>.\<close>

record chat_message =
  msg_role :: string
  msg_content :: string

text \<open>The keyword arguments of \<open>client.chat.completions.create\<close>.\<close>

record request =
  model :: string
  messages :: "chat_message list"
  temperature :: real
  stream :: bool

text \<open>The non-streaming answer: \<open>response.choices[0].message.content\<close>.\<close>

record reply_message =
  message_role :: string
  message_content :: "string option"

record completion_choice =
  message :: reply_message

record chat_completion =
  completion_choices :: "completion_choice list"

text \<open>A streamed fragment: \<open>chunk.choices[0].delta\<close>, with \<open>delta.role\<close> and
  \<open>delta.content\<close> both optional.\<close>

record choice_delta =
  role :: "string option"
  content :: "string option"

record chunk_choice =
  delta :: choice_delta

record chunk =
  choices :: "chunk_choice list"

text \<open>
  The exceptions that can leave a cell. \<open>ValueError\<close> is raised by cell 1; \<open>NameError\<close>,
  \<open>IndexError\<close>, \<open>TypeError\<close> and \<open>AttributeError\<close> by Python itself; \<open>TransportError\<close>
  stands for the failures of the SDK's transport (request submission or fragment retrieval).
\<close>

datatype exn =
    ValueError string
  | NameError string
  | IndexError
  | TypeError string
  | AttributeError string
  | TransportError string

text \<open>
  The iterator returned for \<open>stream=True\<close>. Each pull (\<open>__next__\<close>) either yields a
  chunk, ends the iteration, or raises. The transport closes every stream, so a stream is
  a finite script of pulls.
\<close>

datatype chunk_stream =
    Closed
  | Broken exn
  | Yield chunk chunk_stream

datatype reply = Completion chat_completion | Stream chunk_stream

text \<open>The client built by \<open>OpenAI()\<close>: the key and the endpoint it found in the
  environment.\<close>

record api_client =
  api_key :: "string option"
  base_url :: "string option"

text \<open>What the service answers to a request, with and without the streaming flag.\<close>

record transport =
  complete :: "api_client \<Rightarrow> request \<Rightarrow> exn + chat_completion"
  open_stream :: "api_client \<Rightarrow> request \<Rightarrow> exn + chunk_stream"

text \<open>The \<open>n\<close>-th call of \<open>time.time()\<close> returns \<open>clk n\<close>.\<close>

type_synonym clock = "nat \<Rightarrow> real"

subsection \<open>The notebook state\<close>

text \<open>One printed line: the \<open>print\<close> call and the values it formats.\<close>

datatype line =
    Full_response_time real
  | Full_response chat_completion
  | Extracted_reply reply_message
  | Extracted_content "string option"
  | Chunk_line chunk
  | Message_received real choice_delta
  | Full_response_received real
  | Full_conversation string
  | Last_chunk_json chunk

record notebook =
  environ :: "string \<rightharpoonup> string"
  ticks :: nat
  requests :: "request list"
  stdout :: "line list"
  GPT_MODEL :: "string option"
  client :: "api_client option"
  response :: "reply option"
  collected_chunks :: "chunk list option"
  collected_messages :: "choice_delta list option"
  chunk_time :: "real option"
  full_reply_content :: "string option"

definition getenv :: "notebook \<Rightarrow> string \<Rightarrow> string option" where
  "getenv s k = environ s k"

definition setenv :: "string \<Rightarrow> string \<Rightarrow> notebook \<Rightarrow> notebook" where
  "setenv k v s = s\<lparr>environ := (environ s)(k \<mapsto> v)\<rparr>"

definition time_time :: "clock \<Rightarrow> notebook \<Rightarrow> real \<times> notebook" where
  "time_time clk s = (clk (ticks s), s\<lparr>ticks := Suc (ticks s)\<rparr>)"

definition print_line :: "line \<Rightarrow> notebook \<Rightarrow> notebook" where
  "print_line l s = s\<lparr>stdout := stdout s @ [l]\<rparr>"

text \<open>Jupyter clears the output area of a cell when the cell starts.\<close>

definition clear_output :: "notebook \<Rightarrow> notebook" where
  "clear_output s = s\<lparr>stdout := []\<rparr>"

text \<open>Python's \<open>not x\<close> for an optional string: \<open>None\<close> and \<open>''\<close> are false.\<close>

definition py_not :: "string option \<Rightarrow> bool" where
  "py_not v = (case v of None \<Rightarrow> True | Some x \<Rightarrow> x = [])"

text \<open>
  \<open>client.chat.completions.create(...)\<close> sends the request to the transport. Without the
  streaming flag the answer is a completion (\<open>create\<close>); with \<open>stream=True\<close> it is a stream
  (\<open>create_stream\<close>).
\<close>

definition create :: "transport \<Rightarrow> api_client \<Rightarrow> request \<Rightarrow> notebook \<Rightarrow> notebook \<times> (exn + chat_completion)" where
  "create tr c req s = (s\<lparr>requests := requests s @ [req]\<rparr>, complete tr c req)"

definition create_stream :: "transport \<Rightarrow> api_client \<Rightarrow> request \<Rightarrow> notebook \<Rightarrow> notebook \<times> (exn + chunk_stream)" where
  "create_stream tr c req s = (s\<lparr>requests := requests s @ [req]\<rparr>, open_stream tr c req)"

subsection \<open>Cell 1: client configuration\<close>

abbreviation ConfigurationError :: exn where
  "ConfigurationError \<equiv> ValueError ''GITHUB_TOKEN is not set''"

text \<open>
  \<open>dotenv.load_dotenv()\<close> runs first, so the credential is read from the environment as
  the loader leaves it. \<open>client = OpenAI()\<close> is the last statement: when the constructor
  raises, the two entries and \<open>GPT_MODEL\<close> have been written already.
\<close>

definition cell_1 ::
  "((string \<rightharpoonup> string) \<Rightarrow> (string \<rightharpoonup> string)) \<Rightarrow> ((string \<rightharpoonup> string) \<Rightarrow> exn + api_client) \<Rightarrow>
   notebook \<Rightarrow> notebook \<times> exn option" where
  "cell_1 load_dotenv OpenAI s =
     (let s0 = clear_output s;
          s1 = s0\<lparr>environ := load_dotenv (environ s0)\<rparr>
      in if py_not (getenv s1 ''GITHUB_TOKEN'') then (s1, Some ConfigurationError)
         else (case getenv s1 ''GITHUB_TOKEN'' of
           None \<Rightarrow> (s1, Some (TypeError ''str expected, not NoneType''))
         | Some token \<Rightarrow>
             (let s2 = setenv ''OPENAI_API_KEY'' token s1;
                  s3 = setenv ''OPENAI_BASE_URL'' ''https://models.github.ai/inference'' s2;
                  s4 = s3\<lparr>GPT_MODEL := Some ''openai/gpt-4o-mini''\<rparr>
              in case OpenAI (environ s4) of
                   Inl e \<Rightarrow> (s4, Some e)
                 | Inr c \<Rightarrow> (s4\<lparr>client := Some c\<rparr>, None))))"

subsection \<open>Cells 3 and 5: the blocking request\<close>

definition count_to_100 :: "chat_message list" where
  "count_to_100 =
     [\<lparr>msg_role = ''user'',
       msg_content = ''Count to 100, with a comma between each number and no newlines. E.g., 1, 2, 3, ...''\<rparr>]"

definition cell_3 :: "transport \<Rightarrow> clock \<Rightarrow> notebook \<Rightarrow> notebook \<times> exn option" where
  "cell_3 tr clk s =
     (let (start_time, s1) = time_time clk (clear_output s) in
      case client s1 of
        None \<Rightarrow> (s1, Some (NameError ''client''))
      | Some c \<Rightarrow>
         (case GPT_MODEL s1 of
            None \<Rightarrow> (s1, Some (NameError ''GPT_MODEL''))
          | Some m \<Rightarrow>
             (case create tr c \<lparr>model = m, messages = count_to_100, temperature = 0, stream = False\<rparr> s1 of
                (s2, Inl e) \<Rightarrow> (s2, Some e)
              | (s2, Inr r) \<Rightarrow>
                 (let s3 = s2\<lparr>response := Some (Completion r)\<rparr>;
                      (now, s4) = time_time clk s3;
                      response_time = now - start_time;
                      s5 = print_line (Full_response_time response_time) s4
                  in (print_line (Full_response r) s5, None)))))"

definition cell_5 :: "notebook \<Rightarrow> notebook \<times> exn option" where
  "cell_5 s =
     (let s0 = clear_output s in
      case response s0 of
        None \<Rightarrow> (s0, Some (NameError ''response''))
      | Some (Stream st) \<Rightarrow> (s0, Some (AttributeError ''choices''))
      | Some (Completion r) \<Rightarrow>
          (case completion_choices r of
             [] \<Rightarrow> (s0, Some IndexError)
           | ch # _ \<Rightarrow>
               let reply = message ch;
                   s1 = print_line (Extracted_reply reply) s0;
                   reply_content = message_content (message ch)
               in (print_line (Extracted_content reply_content) s1, None)))"

subsection \<open>Cell 6: printing a stream\<close>

definition one_plus_one :: "chat_message list" where
  "one_plus_one = [\<lparr>msg_role = ''user'', msg_content = ''What's 1+1? Answer in one word.''\<rparr>]"

fun print_chunks :: "chunk_stream \<Rightarrow> notebook \<Rightarrow> notebook \<times> exn option" where
  "print_chunks Closed s = (s, None)"
| "print_chunks (Broken e) s = (s, Some e)"
| "print_chunks (Yield chunk rest) s = print_chunks rest (print_line (Chunk_line chunk) s)"

definition cell_6 :: "transport \<Rightarrow> notebook \<Rightarrow> notebook \<times> exn option" where
  "cell_6 tr s =
     (let s0 = clear_output s in
      case client s0 of
        None \<Rightarrow> (s0, Some (NameError ''client''))
      | Some c \<Rightarrow>
         (case GPT_MODEL s0 of
            None \<Rightarrow> (s0, Some (NameError ''GPT_MODEL''))
          | Some m \<Rightarrow>
             (case create_stream tr c \<lparr>model = m, messages = one_plus_one, temperature = 0, stream = True\<rparr> s0 of
                (s1, Inl e) \<Rightarrow> (s1, Some e)
              | (s1, Inr st) \<Rightarrow> print_chunks st (s1\<lparr>response := Some (Stream st)\<rparr>))))"

subsection \<open>Cell 10: the stream consumer\<close>

text \<open>\<open>m.content or ''\<close>\<close>

definition content_or_empty :: "choice_delta \<Rightarrow> string" where
  "content_or_empty m = (case content m of None \<Rightarrow> [] | Some x \<Rightarrow> if x = [] then [] else x)"

text \<open>
  The body of \<open>for chunk in response\<close>, once per pull. The elapsed time is taken and the chunk
  is appended to \<open>collected_chunks\<close> before \<open>chunk.choices[0]\<close> is evaluated, which raises
  \<open>IndexError\<close> on an empty list. Nothing catches an exception: it ends the loop and the cell.
\<close>

fun for_chunk :: "clock \<Rightarrow> real \<Rightarrow> chunk_stream \<Rightarrow> notebook \<Rightarrow> notebook \<times> exn option" where
  "for_chunk clk start_time Closed s = (s, None)"
| "for_chunk clk start_time (Broken e) s = (s, Some e)"
| "for_chunk clk start_time (Yield chunk rest) s =
     (let (now, s1) = time_time clk s;
          s2 = s1\<lparr>chunk_time := Some (now - start_time)\<rparr>
      in case collected_chunks s2 of
           None \<Rightarrow> (s2, Some (NameError ''collected_chunks''))
         | Some cs \<Rightarrow>
            (let s3 = s2\<lparr>collected_chunks := Some (cs @ [chunk])\<rparr>
             in case choices chunk of
                  [] \<Rightarrow> (s3, Some IndexError)
                | ch # _ \<Rightarrow>
                   (let chunk_message = delta ch
                    in case collected_messages s3 of
                         None \<Rightarrow> (s3, Some (NameError ''collected_messages''))
                       | Some ms \<Rightarrow>
                          (let s4 = s3\<lparr>collected_messages := Some (ms @ [chunk_message])\<rparr>;
                               s5 = print_line (Message_received (now - start_time) chunk_message) s4
                           in for_chunk clk start_time rest s5))))"

text \<open>The statements after the loop. \<open>chunk_time\<close> is assigned only inside the loop.\<close>

definition after_loop :: "notebook \<Rightarrow> notebook \<times> exn option" where
  "after_loop s =
     (case chunk_time s of
        None \<Rightarrow> (s, Some (NameError ''chunk_time''))
      | Some t \<Rightarrow>
         (let s1 = print_line (Full_response_received t) s
          in case collected_messages s1 of
               None \<Rightarrow> (s1, Some (NameError ''collected_messages''))
             | Some ms \<Rightarrow>
                (let text = concat (map content_or_empty ms);
                     s2 = s1\<lparr>full_reply_content := Some text\<rparr>
                 in (print_line (Full_conversation text) s2, None))))"

text \<open>
  The cell, with the message list as its argument: the request is built from \<open>GPT_MODEL\<close>,
  the messages, \<open>temperature=0\<close> and \<open>stream=True\<close>, and sent through \<open>client\<close>.
\<close>

definition consume :: "transport \<Rightarrow> clock \<Rightarrow> chat_message list \<Rightarrow> notebook \<Rightarrow> notebook \<times> exn option" where
  "consume tr clk msgs s =
     (let (start_time, s1) = time_time clk (clear_output s) in
      case client s1 of
        None \<Rightarrow> (s1, Some (NameError ''client''))
      | Some c \<Rightarrow>
         (case GPT_MODEL s1 of
            None \<Rightarrow> (s1, Some (NameError ''GPT_MODEL''))
          | Some m \<Rightarrow>
             (case create_stream tr c \<lparr>model = m, messages = msgs, temperature = 0, stream = True\<rparr> s1 of
                (s2, Inl e) \<Rightarrow> (s2, Some e)
              | (s2, Inr st) \<Rightarrow>
                 (let s3 = s2\<lparr>response := Some (Stream st)\<rparr>;
                      s4 = s3\<lparr>collected_chunks := Some []\<rparr>;
                      s5 = s4\<lparr>collected_messages := Some []\<rparr>
                  in case for_chunk clk start_time st s5 of
                       (s6, Some e) \<Rightarrow> (s6, Some e)
                     | (s6, None) \<Rightarrow> after_loop s6))))"

definition cell_10 :: "transport \<Rightarrow> clock \<Rightarrow> notebook \<Rightarrow> notebook \<times> exn option" where
  "cell_10 tr clk = consume tr clk count_to_100"

subsection \<open>Cell 11 and the whole notebook\<close>

definition cell_11 :: "notebook \<Rightarrow> notebook \<times> exn option" where
  "cell_11 s =
     (let s0 = clear_output s in
      case collected_chunks s0 of
        None \<Rightarrow> (s0, Some (NameError ''collected_chunks''))
      | Some cs \<Rightarrow> if cs = [] then (s0, Some IndexError)
                   else (print_line (Last_chunk_json (last cs)) s0, None))"

text \<open>Running cells in order stops at the first exception.\<close>

fun run_cells :: "(notebook \<Rightarrow> notebook \<times> exn option) list \<Rightarrow> notebook \<Rightarrow> notebook \<times> exn option" where
  "run_cells [] s = (s, None)"
| "run_cells (c # cs) s =
     (case c s of (s', Some e) \<Rightarrow> (s', Some e) | (s', None) \<Rightarrow> run_cells cs s')"

definition run_all ::
  "((string \<rightharpoonup> string) \<Rightarrow> (string \<rightharpoonup> string)) \<Rightarrow> ((string \<rightharpoonup> string) \<Rightarrow> exn + api_client) \<Rightarrow>
   transport \<Rightarrow> clock \<Rightarrow> notebook \<Rightarrow> notebook \<times> exn option" where
  "run_all load_dotenv OpenAI tr clk =
     run_cells [cell_1 load_dotenv OpenAI, cell_3 tr clk, cell_5, cell_6 tr, cell_10 tr clk, cell_11]"

section \<open>Vocabulary of the properties\<close>

text \<open>
  What a stream script holds: the chunks it would deliver if pulled to its end, and the
  exception it ends with, if any.
\<close>

fun delivered :: "chunk_stream \<Rightarrow> chunk list" where
  "delivered Closed = []"
| "delivered (Broken e) = []"
| "delivered (Yield c st) = c # delivered st"

fun failure :: "chunk_stream \<Rightarrow> exn option" where
  "failure Closed = None"
| "failure (Broken e) = Some e"
| "failure (Yield c st) = failure st"

text \<open>The stream that delivers \<open>cs\<close> and then goes on as \<open>rest\<close>.\<close>

definition yields :: "chunk list \<Rightarrow> chunk_stream \<Rightarrow> chunk_stream" where
  "yields cs rest = foldr Yield cs rest"

text \<open>
  What the loop does with a script, read off the script alone: the chunks whose iteration
  runs to its end (\<open>accepted\<close>), the chunks pulled (\<open>pulled\<close>: the accepted ones and, if
  there is one, the chunk whose \<open>choices\<close> is empty), and how the loop ends.
\<close>

fun accepted :: "chunk_stream \<Rightarrow> chunk list" where
  "accepted Closed = []"
| "accepted (Broken e) = []"
| "accepted (Yield c st) = (if choices c = [] then [] else c # accepted st)"

fun pulled :: "chunk_stream \<Rightarrow> chunk list" where
  "pulled Closed = []"
| "pulled (Broken e) = []"
| "pulled (Yield c st) = (if choices c = [] then [c] else c # pulled st)"

fun loop_exit :: "chunk_stream \<Rightarrow> exn option" where
  "loop_exit Closed = None"
| "loop_exit (Broken e) = Some e"
| "loop_exit (Yield c st) = (if choices c = [] then Some IndexError else loop_exit st)"

text \<open>\<open>chunk.choices[0].delta\<close>, for a chunk that has a choice.\<close>

definition first_delta :: "chunk \<Rightarrow> choice_delta" where
  "first_delta c = delta (hd (choices c))"

text \<open>The lines the loop prints for the chunks \<open>cs\<close>, the first of them at tick \<open>n\<close>.\<close>

fun message_lines :: "clock \<Rightarrow> real \<Rightarrow> nat \<Rightarrow> chunk list \<Rightarrow> line list" where
  "message_lines clk t0 n [] = []"
| "message_lines clk t0 n (c # cs) =
     Message_received (clk n - t0) (first_delta c) # message_lines clk t0 (Suc n) cs"

text \<open>The (elapsed time, delta) pairs of the \<open>Message received\<close> lines of an output.\<close>

fun received :: "line list \<Rightarrow> (real \<times> choice_delta) list" where
  "received [] = []"
| "received (Message_received t m # ls) = (t, m) # received ls"
| "received (l # ls) = received ls"

abbreviation stream_request :: "string \<Rightarrow> chat_message list \<Rightarrow> request" where
  "stream_request m msgs \<equiv> \<lparr>model = m, messages = msgs, temperature = 0, stream = True\<rparr>"

text \<open>The request of \<open>consume\<close> can be sent, and the transport answers it with the stream
  \<open>st\<close>.\<close>

definition opens :: "transport \<Rightarrow> chat_message list \<Rightarrow> notebook \<Rightarrow> chunk_stream \<Rightarrow> bool" where
  "opens tr msgs s st =
     (case client s of
        None \<Rightarrow> False
      | Some c \<Rightarrow>
         (case GPT_MODEL s of
            None \<Rightarrow> False
          | Some m \<Rightarrow> open_stream tr c (stream_request m msgs) = Inr st))"

text \<open>The state in which the loop of \<open>consume\<close> starts.\<close>

definition loop_start :: "notebook \<Rightarrow> string \<Rightarrow> chat_message list \<Rightarrow> chunk_stream \<Rightarrow> notebook" where
  "loop_start s m msgs st =
     s\<lparr>stdout := [], ticks := Suc (ticks s), requests := requests s @ [stream_request m msgs],
       response := Some (Stream st), collected_chunks := Some [], collected_messages := Some []\<rparr>"


subsection \<open>Test fixtures\<close>

text \<open>A transport that answers every streaming request with the same script.\<close>

definition stub_transport :: "chunk_stream \<Rightarrow> transport" where
  "stub_transport st =
     \<lparr>complete = (\<lambda>c req. Inl (TransportError ''stub'')), open_stream = (\<lambda>c req. Inr st)\<rparr>"

text \<open>
  The effect of \<open>dotenv.load_dotenv()\<close> for a \<open>.env\<close> file with the given entries: a
  variable of the file is set, unless the environment has it already.
\<close>

fun load_dotenv_file :: "(string \<times> string) list \<Rightarrow> (string \<rightharpoonup> string) \<Rightarrow> (string \<rightharpoonup> string)" where
  "load_dotenv_file [] env = env"
| "load_dotenv_file ((k, v) # kvs) env =
     load_dotenv_file kvs (if env k = None then env(k \<mapsto> v) else env)"

text \<open>A constructor that never raises: the client holds the key and the endpoint it
  finds in the environment.\<close>

definition env_client :: "(string \<rightharpoonup> string) \<Rightarrow> exn + api_client" where
  "env_client env = Inr \<lparr>api_key = env ''OPENAI_API_KEY'', base_url = env ''OPENAI_BASE_URL''\<rparr>"

text \<open>A kernel that has run nothing, and the same kernel after cell 1 has run with a
  credential in the environment.\<close>

definition fresh_kernel :: notebook where
  "fresh_kernel =
     \<lparr>environ = Map.empty, ticks = 0, requests = [], stdout = [], GPT_MODEL = None,
      client = None, response = None, collected_chunks = None, collected_messages = None,
      chunk_time = None, full_reply_content = None\<rparr>"

definition configured :: notebook where
  "configured = fst (cell_1 id env_client (fresh_kernel\<lparr>environ := [''GITHUB_TOKEN'' \<mapsto> ''token'']\<rparr>))"

text \<open>The fragments \<open>[{role: assistant}, {content: Two}, {}]\<close>, each the delta of the one
  choice of a chunk, and the question they answer.\<close>

definition fragment :: "string option \<Rightarrow> string option \<Rightarrow> chunk" where
  "fragment r c = \<lparr>choices = [\<lparr>delta = \<lparr>role = r, content = c\<rparr>\<rparr>]\<rparr>"

definition two_fragments :: "chunk list" where
  "two_fragments = [fragment (Some ''assistant'') None, fragment None (Some ''Two''), fragment None None]"

definition what_is_one_plus_one :: "chat_message list" where
  "what_is_one_plus_one = [\<lparr>msg_role = ''user'', msg_content = ''1+1?''\<rparr>]"

section \<open>Scripts and output\<close>

lemma delivered_yields: "delivered (yields cs rest) = cs @ delivered rest"
  by (induction cs) (simp_all add: yields_def)

lemma failure_yields: "failure (yields cs rest) = failure rest"
  by (induction cs) (simp_all add: yields_def)

lemma accepted_good: "\<forall>c\<in>set (delivered st). choices c \<noteq> [] \<Longrightarrow> accepted st = delivered st"
  by (induction st) simp_all

lemma pulled_good: "\<forall>c\<in>set (delivered st). choices c \<noteq> [] \<Longrightarrow> pulled st = delivered st"
  by (induction st) simp_all

lemma loop_exit_good: "\<forall>c\<in>set (delivered st). choices c \<noteq> [] \<Longrightarrow> loop_exit st = failure st"
  by (induction st) simp_all

lemma loop_exit_bad: "\<not> (\<forall>c\<in>set (delivered st). choices c \<noteq> []) \<Longrightarrow> loop_exit st = Some IndexError"
  by (induction st) auto

lemma accepted_takeWhile: "accepted st = takeWhile (\<lambda>x. choices x \<noteq> []) (delivered st)"
  by (induction st) simp_all

lemma pulled_take: "pulled st = take (Suc (length (accepted st))) (delivered st)"
  by (induction st) simp_all

lemma accepted_prefix: "accepted st = take (length (accepted st)) (delivered st)"
  by (induction st) simp_all

lemma pulled_last_bad:
  "\<not> (\<forall>c\<in>set (delivered st). choices c \<noteq> []) \<Longrightarrow> pulled st \<noteq> [] \<and> choices (last (pulled st)) = []"
  by (induction st) auto

lemma received_append: "received (xs @ ys) = received xs @ received ys"
  by (induction xs rule: received.induct) simp_all

lemma received_message_lines:
  "received (message_lines clk t0 n cs) =
     zip (map (\<lambda>i. clk (n + i) - t0) [0..<length cs]) (map first_delta cs)"
proof (induction cs arbitrary: n)
  case Nil
  then show ?case by simp
next
  case (Cons c cs)
  have "[0..<Suc (length cs)] = 0 # map Suc [0..<length cs]"
    by (simp add: upt_conv_Cons map_Suc_upt del: upt_Suc)
  then show ?case using Cons by (simp add: comp_def del: upt_Suc)
qed

lemma mono_elapsed_sorted:
  assumes "mono (clk :: clock)"
  shows "sorted (map (\<lambda>i. clk (k + i) - t0) [0..<n])"
proof -
  have "clk (k + i) - t0 \<le> clk (k + j) - t0" if "i \<le> j" for i j
    using monoD [OF assms, of "k + i" "k + j"] that by simp
  then show ?thesis
    by (simp add: sorted_iff_nth_mono)
qed

section \<open>The loop\<close>

lemma for_chunk_frame:
  "requests (fst (for_chunk clk t0 st s)) = requests s \<and>
   environ (fst (for_chunk clk t0 st s)) = environ s \<and>
   client (fst (for_chunk clk t0 st s)) = client s \<and>
   GPT_MODEL (fst (for_chunk clk t0 st s)) = GPT_MODEL s \<and>
   response (fst (for_chunk clk t0 st s)) = response s \<and>
   full_reply_content (fst (for_chunk clk t0 st s)) = full_reply_content s"
  by (induction st arbitrary: s)
     (simp_all add: time_time_def print_line_def Let_def split: option.splits list.splits)

lemma for_chunk_exit:
  "collected_chunks s \<noteq> None \<Longrightarrow> collected_messages s \<noteq> None \<Longrightarrow>
   snd (for_chunk clk t0 st s) = loop_exit st"
  by (induction st arbitrary: s)
     (auto simp add: time_time_def print_line_def Let_def split: option.splits list.splits)

lemma for_chunk_chunks:
  "collected_chunks s = Some cs \<Longrightarrow> collected_messages s \<noteq> None \<Longrightarrow>
   collected_chunks (fst (for_chunk clk t0 st s)) = Some (cs @ pulled st)"
  by (induction st arbitrary: s cs)
     (auto simp add: time_time_def print_line_def Let_def split: option.splits list.splits)

lemma for_chunk_messages:
  "collected_chunks s \<noteq> None \<Longrightarrow> collected_messages s = Some ms \<Longrightarrow>
   collected_messages (fst (for_chunk clk t0 st s)) = Some (ms @ map first_delta (accepted st))"
  by (induction st arbitrary: s ms)
     (auto simp add: time_time_def print_line_def Let_def first_delta_def
           split: option.splits list.splits)

lemma for_chunk_stdout:
  "collected_chunks s \<noteq> None \<Longrightarrow> collected_messages s \<noteq> None \<Longrightarrow>
   stdout (fst (for_chunk clk t0 st s)) = stdout s @ message_lines clk t0 (ticks s) (accepted st)"
  by (induction st arbitrary: s)
     (auto simp add: time_time_def print_line_def Let_def first_delta_def
           split: option.splits list.splits)

lemma for_chunk_chunk_time:
  "collected_chunks s \<noteq> None \<Longrightarrow> collected_messages s \<noteq> None \<Longrightarrow>
   chunk_time (fst (for_chunk clk t0 st s)) =
     (if pulled st = [] then chunk_time s
      else Some (clk (ticks s + length (pulled st) - 1) - t0))"
  by (induction st arbitrary: s)
     (auto simp add: time_time_def print_line_def Let_def split: option.splits list.splits)

section \<open>The cell\<close>

lemma after_loop_frame:
  "collected_chunks (fst (after_loop s)) = collected_chunks s \<and>
   collected_messages (fst (after_loop s)) = collected_messages s \<and>
   requests (fst (after_loop s)) = requests s \<and>
   chunk_time (fst (after_loop s)) = chunk_time s \<and>
   client (fst (after_loop s)) = client s \<and>
   GPT_MODEL (fst (after_loop s)) = GPT_MODEL s \<and>
   received (stdout (fst (after_loop s))) = received (stdout s)"
  by (simp add: after_loop_def print_line_def Let_def received_append split: option.splits)

lemma consume_opened:
  assumes "opens tr msgs s st" and "GPT_MODEL s = Some m"
  shows "consume tr clk msgs s =
     (case for_chunk clk (clk (ticks s)) st (loop_start s m msgs st) of
        (s6, Some e) \<Rightarrow> (s6, Some e)
      | (s6, None) \<Rightarrow> after_loop s6)"
  using assms
  by (auto simp add: opens_def consume_def loop_start_def time_time_def clear_output_def
      create_stream_def Let_def split: option.splits)

lemma consume_loop:
  assumes "opens tr msgs s st"
  obtains m s6 where
    "GPT_MODEL s = Some m"
    "consume tr clk msgs s = (case loop_exit st of Some e \<Rightarrow> (s6, Some e) | None \<Rightarrow> after_loop s6)"
    "collected_chunks s6 = Some (pulled st)"
    "collected_messages s6 = Some (map first_delta (accepted st))"
    "stdout s6 = message_lines clk (clk (ticks s)) (Suc (ticks s)) (accepted st)"
    "chunk_time s6 = (if pulled st = [] then chunk_time s
                      else Some (clk (ticks s + length (pulled st)) - clk (ticks s)))"
    "requests s6 = requests s @ [stream_request m msgs]"
    "full_reply_content s6 = full_reply_content s"
    "client s6 = client s"
    "GPT_MODEL s6 = GPT_MODEL s"
proof -
  from assms obtain m where m: "GPT_MODEL s = Some m"
    by (auto simp add: opens_def split: option.splits)
  let ?t0 = "clk (ticks s)"
  let ?s5 = "loop_start s m msgs st"
  let ?s6 = "fst (for_chunk clk ?t0 st ?s5)"
  have c: "collected_chunks ?s5 = Some []" "collected_messages ?s5 = Some []"
    by (simp_all add: loop_start_def)
  then have n: "collected_chunks ?s5 \<noteq> None" "collected_messages ?s5 \<noteq> None"
    by simp_all
  have l: "for_chunk clk ?t0 st ?s5 = (?s6, loop_exit st)"
    using for_chunk_exit [OF n, of clk ?t0 st] by (simp add: prod_eq_iff)
  have 1: "consume tr clk msgs s = (case loop_exit st of Some e \<Rightarrow> (?s6, Some e) | None \<Rightarrow> after_loop ?s6)"
    unfolding consume_opened [OF assms m] by (subst l) (simp split: option.splits)
  have 2: "collected_chunks ?s6 = Some (pulled st)"
    using for_chunk_chunks [OF c(1) n(2)] by simp
  have 3: "collected_messages ?s6 = Some (map first_delta (accepted st))"
    using for_chunk_messages [OF n(1) c(2)] by simp
  have 4: "stdout ?s6 = message_lines clk ?t0 (Suc (ticks s)) (accepted st)"
    using for_chunk_stdout [OF n, of clk ?t0 st] by (simp add: loop_start_def)
  have 5: "chunk_time ?s6 = (if pulled st = [] then chunk_time s
                      else Some (clk (ticks s + length (pulled st)) - ?t0))"
    using for_chunk_chunk_time [OF n, of clk ?t0 st] by (simp add: loop_start_def)
  have 6: "requests ?s6 = requests s @ [stream_request m msgs]"
    using for_chunk_frame [of clk ?t0 st ?s5] by (simp add: loop_start_def)
  have 7: "full_reply_content ?s6 = full_reply_content s"
    using for_chunk_frame [of clk ?t0 st ?s5] by (simp add: loop_start_def)
  have 8: "client ?s6 = client s"
    using for_chunk_frame [of clk ?t0 st ?s5] by (simp add: loop_start_def)
  have 9: "GPT_MODEL ?s6 = GPT_MODEL s"
    using for_chunk_frame [of clk ?t0 st ?s5] by (simp add: loop_start_def)
  from m 1 2 3 4 5 6 7 8 9 show thesis by (rule that)
qed

lemma consume_exit:
  assumes "opens tr msgs s st"
  shows "snd (consume tr clk msgs s) =
     (case loop_exit st of
        Some e \<Rightarrow> Some e
      | None \<Rightarrow> if pulled st = [] \<and> chunk_time s = None then Some (NameError ''chunk_time'') else None)"
proof -
  from assms obtain m s6 where
    "GPT_MODEL s = Some m"
    "consume tr clk msgs s = (case loop_exit st of Some e \<Rightarrow> (s6, Some e) | None \<Rightarrow> after_loop s6)"
    "collected_messages s6 = Some (map first_delta (accepted st))"
    "chunk_time s6 = (if pulled st = [] then chunk_time s
                      else Some (clk (ticks s + length (pulled st)) - clk (ticks s)))"
    by (rule consume_loop)
  then show ?thesis
    by (auto simp add: after_loop_def print_line_def Let_def split: option.splits)
qed

lemma consume_chunks:
  assumes "opens tr msgs s st"
  shows "collected_chunks (fst (consume tr clk msgs s)) = Some (pulled st)"
proof -
  from assms obtain m s6 where
    "GPT_MODEL s = Some m"
    "consume tr clk msgs s = (case loop_exit st of Some e \<Rightarrow> (s6, Some e) | None \<Rightarrow> after_loop s6)"
    "collected_chunks s6 = Some (pulled st)"
    by (rule consume_loop)
  then show ?thesis by (simp add: after_loop_frame split: option.splits)
qed

lemma consume_messages:
  assumes "opens tr msgs s st"
  shows "collected_messages (fst (consume tr clk msgs s)) = Some (map first_delta (accepted st))"
proof -
  from assms obtain m s6 where
    "GPT_MODEL s = Some m"
    "consume tr clk msgs s = (case loop_exit st of Some e \<Rightarrow> (s6, Some e) | None \<Rightarrow> after_loop s6)"
    "collected_messages s6 = Some (map first_delta (accepted st))"
    by (rule consume_loop)
  then show ?thesis by (simp add: after_loop_frame split: option.splits)
qed

lemma consume_received:
  assumes "opens tr msgs s st"
  shows "received (stdout (fst (consume tr clk msgs s))) =
     zip (map (\<lambda>i. clk (Suc (ticks s) + i) - clk (ticks s)) [0..<length (accepted st)])
         (map first_delta (accepted st))"
proof -
  from assms obtain m s6 where
    "GPT_MODEL s = Some m"
    "consume tr clk msgs s = (case loop_exit st of Some e \<Rightarrow> (s6, Some e) | None \<Rightarrow> after_loop s6)"
    "stdout s6 = message_lines clk (clk (ticks s)) (Suc (ticks s)) (accepted st)"
    by (rule consume_loop)
  then show ?thesis
    by (simp add: after_loop_frame received_message_lines split: option.splits)
qed

lemma consume_requests:
  assumes "opens tr msgs s st" and "GPT_MODEL s = Some m"
  shows "requests (fst (consume tr clk msgs s)) = requests s @ [stream_request m msgs]"
proof -
  from assms(1) obtain m' s6 where
    "GPT_MODEL s = Some m'"
    "consume tr clk msgs s = (case loop_exit st of Some e \<Rightarrow> (s6, Some e) | None \<Rightarrow> after_loop s6)"
    "requests s6 = requests s @ [stream_request m' msgs]"
    by (rule consume_loop)
  with assms(2) show ?thesis by (simp add: after_loop_frame split: option.splits)
qed

lemma consume_text:
  assumes "opens tr msgs s st"
  shows "full_reply_content (fst (consume tr clk msgs s)) =
     (if snd (consume tr clk msgs s) = None
      then Some (concat (map content_or_empty (map first_delta (accepted st))))
      else full_reply_content s)"
proof -
  from assms obtain m s6 where
    "GPT_MODEL s = Some m"
    "consume tr clk msgs s = (case loop_exit st of Some e \<Rightarrow> (s6, Some e) | None \<Rightarrow> after_loop s6)"
    "collected_messages s6 = Some (map first_delta (accepted st))"
    "full_reply_content s6 = full_reply_content s"
    by (rule consume_loop)
  then show ?thesis
    by (simp add: after_loop_def print_line_def Let_def split: option.splits)
qed


text \<open>When the request cannot be sent or is not answered with a stream, the cell ends
  before the loop and leaves the names of the loop as they were.\<close>

lemma consume_not_opened:
  assumes "\<forall>st. \<not> opens tr msgs s st"
  shows "stdout (fst (consume tr clk msgs s)) = []"
    and "collected_chunks (fst (consume tr clk msgs s)) = collected_chunks s"
    and "collected_messages (fst (consume tr clk msgs s)) = collected_messages s"
    and "full_reply_content (fst (consume tr clk msgs s)) = full_reply_content s"
    and "client (fst (consume tr clk msgs s)) = client s"
    and "GPT_MODEL (fst (consume tr clk msgs s)) = GPT_MODEL s"
    and "snd (consume tr clk msgs s) =
           (case client s of
              None \<Rightarrow> Some (NameError ''client'')
            | Some c \<Rightarrow>
               (case GPT_MODEL s of
                  None \<Rightarrow> Some (NameError ''GPT_MODEL'')
                | Some m \<Rightarrow>
                   (case open_stream tr c (stream_request m msgs) of
                      Inl e \<Rightarrow> Some e
                    | Inr st \<Rightarrow> None)))"
  using assms
  by (auto simp add: consume_def opens_def create_stream_def time_time_def clear_output_def Let_def
      split: option.splits sum.splits)

lemma configured_names:
  "client configured = Some \<lparr>api_key = Some ''token'', base_url = Some ''https://models.github.ai/inference''\<rparr>"
  "GPT_MODEL configured = Some ''openai/gpt-4o-mini''"
  "chunk_time configured = None"
  "full_reply_content configured = None"
  "ticks configured = 0"
  "requests configured = []"
  by (simp_all add: configured_def cell_1_def fresh_kernel_def clear_output_def py_not_def
      getenv_def setenv_def env_client_def Let_def)

lemma opens_stub: "opens (stub_transport st) msgs configured st"
  by (simp add: opens_def configured_names stub_transport_def)



text \<open>Without a client, the cells that send a request end at the name \<open>client\<close>.\<close>

lemma no_client_no_request:
  assumes "client s = None"
  shows "cell_3 tr clk s = (s\<lparr>stdout := [], ticks := Suc (ticks s)\<rparr>, Some (NameError ''client''))"
    and "cell_6 tr s = (s\<lparr>stdout := []\<rparr>, Some (NameError ''client''))"
    and "cell_10 tr clk s = (s\<lparr>stdout := [], ticks := Suc (ticks s)\<rparr>, Some (NameError ''client''))"
  using assms
  by (simp_all add: cell_3_def cell_6_def cell_10_def consume_def time_time_def clear_output_def)

section \<open>Client configuration\<close>

text \<open>
  The credential may come from a \<open>.env\<close> file. With \<open>GITHUB_TOKEN\<close> unset in the
  environment the kernel starts with, and a \<open>.env\<close> file that defines it, cell 1 raises
  nothing and builds a client, and running the notebook goes on to cell 3, which sends a
  request.
\<close>

theorem unset_variable_counterexample:
  "environ fresh_kernel ''GITHUB_TOKEN'' = None \<and>
   snd (cell_1 (load_dotenv_file [(''GITHUB_TOKEN'', ''token'')]) env_client fresh_kernel) = None \<and>
   client (fst (cell_1 (load_dotenv_file [(''GITHUB_TOKEN'', ''token'')]) env_client fresh_kernel)) =
     Some \<lparr>api_key = Some ''token'', base_url = Some ''https://models.github.ai/inference''\<rparr> \<and>
   requests (fst (run_all (load_dotenv_file [(''GITHUB_TOKEN'', ''token'')]) env_client
                    (stub_transport Closed) of_nat fresh_kernel)) =
     [\<lparr>model = ''openai/gpt-4o-mini'', messages = count_to_100, temperature = 0, stream = False\<rparr>]"
  by (simp add: run_all_def cell_1_def cell_3_def fresh_kernel_def clear_output_def py_not_def
      getenv_def setenv_def env_client_def create_def stub_transport_def time_time_def Let_def)

text \<open>
  C3, for the environment the credential is read from. If \<open>GITHUB_TOKEN\<close> is unset in the
  environment as \<open>dotenv.load_dotenv()\<close> leaves it (unset in the process environment and
  not supplied by a \<open>.env\<close> file), cell 1 raises its configuration error, which in the
  notebook is \<open>ValueError("GITHUB_TOKEN is not set")\<close>, and it does so before any request:
  the cell changes nothing but the output area and what \<open>load_dotenv\<close> loaded, it does not
  reach the constructor of the client, and running the whole notebook stops there with the
  list of requests as it was. In a kernel that had no client before, each of the cells that
  send a request (3, 6 and 10), run by hand after the failure, ends with \<open>NameError\<close> and
  sends nothing either.
\<close>

theorem missing_credential_raises_before_any_request:
  assumes "load_dotenv (environ s) ''GITHUB_TOKEN'' = None"
  shows "(let s' = s\<lparr>stdout := [], environ := load_dotenv (environ s)\<rparr> in
      cell_1 load_dotenv OpenAI s = (s', Some ConfigurationError) \<and>
      run_all load_dotenv OpenAI tr clk s = (s', Some ConfigurationError) \<and>
      requests s' = requests s \<and> client s' = client s \<and>
      (client s = None \<longrightarrow>
         snd (cell_3 tr clk s') = Some (NameError ''client'') \<and>
         requests (fst (cell_3 tr clk s')) = requests s \<and>
         snd (cell_6 tr s') = Some (NameError ''client'') \<and>
         requests (fst (cell_6 tr s')) = requests s \<and>
         snd (cell_10 tr clk s') = Some (NameError ''client'') \<and>
         requests (fst (cell_10 tr clk s')) = requests s))"
proof -
  let ?s' = "s\<lparr>stdout := [], environ := load_dotenv (environ s)\<rparr>"
  have 1: "cell_1 load_dotenv OpenAI s = (?s', Some ConfigurationError)"
    using assms by (simp add: cell_1_def clear_output_def getenv_def py_not_def Let_def)
  then have 2: "run_all load_dotenv OpenAI tr clk s = (?s', Some ConfigurationError)"
    by (simp add: run_all_def)
  have 3: "snd (cell_3 tr clk ?s') = Some (NameError ''client'') \<and>
         requests (fst (cell_3 tr clk ?s')) = requests s \<and>
         snd (cell_6 tr ?s') = Some (NameError ''client'') \<and>
         requests (fst (cell_6 tr ?s')) = requests s \<and>
         snd (cell_10 tr clk ?s') = Some (NameError ''client'') \<and>
         requests (fst (cell_10 tr clk ?s')) = requests s" if "client s = None"
  proof -
    from that have "client ?s' = None" by simp
    then show ?thesis by (simp add: no_client_no_request)
  qed
  from 1 2 3 show ?thesis by (simp add: Let_def)
qed

text \<open>A kernel that has run nothing, whose \<open>.env\<close> file defines another variable but not
  the credential: the notebook stops in cell 1 and no request has been sent, nor does
  cell 10 send one after that.\<close>

theorem missing_credential_witness:
  "load_dotenv_file [(''OTHER'', ''x'')] (environ fresh_kernel) ''GITHUB_TOKEN'' = None \<and>
   client fresh_kernel = None \<and>
   snd (run_all (load_dotenv_file [(''OTHER'', ''x'')]) env_client
          (stub_transport (yields two_fragments Closed)) of_nat fresh_kernel)
     = Some ConfigurationError \<and>
   requests (fst (run_all (load_dotenv_file [(''OTHER'', ''x'')]) env_client
                    (stub_transport (yields two_fragments Closed)) of_nat fresh_kernel)) = [] \<and>
   requests (fst (cell_10 (stub_transport (yields two_fragments Closed)) of_nat
     (fst (run_all (load_dotenv_file [(''OTHER'', ''x'')]) env_client
             (stub_transport (yields two_fragments Closed)) of_nat fresh_kernel)))) = []"
proof -
  have h: "load_dotenv_file [(''OTHER'', ''x'')] (environ fresh_kernel) ''GITHUB_TOKEN'' = None"
    by (simp add: fresh_kernel_def)
  have c: "client fresh_kernel = None"
    by (simp add: fresh_kernel_def)
  have r: "requests fresh_kernel = []"
    by (simp add: fresh_kernel_def)
  show ?thesis
    using h c missing_credential_raises_before_any_request
      [where load_dotenv = "load_dotenv_file [(''OTHER'', ''x'')]" and s = fresh_kernel
         and OpenAI = env_client
         and tr = "stub_transport (yields two_fragments Closed)" and clk = of_nat, OF h]
    by (simp add: Let_def r)
qed

text \<open>
  Cell 1 as a whole changes more than two entries when there is a \<open>.env\<close> file: with a
  file that defines \<open>GITHUB_TOKEN\<close> and \<open>OTHER\<close>, a kernel that starts with an empty
  environment ends with four entries.
\<close>

theorem two_entries_counterexample:
  "environ fresh_kernel ''OTHER'' = None \<and>
   snd (cell_1 (load_dotenv_file [(''GITHUB_TOKEN'', ''token''), (''OTHER'', ''x'')]) env_client
          fresh_kernel) = None \<and>
   environ (fst (cell_1 (load_dotenv_file [(''GITHUB_TOKEN'', ''token''), (''OTHER'', ''x'')]) env_client
                   fresh_kernel)) =
     [''GITHUB_TOKEN'' \<mapsto> ''token'', ''OTHER'' \<mapsto> ''x'', ''OPENAI_API_KEY'' \<mapsto> ''token'',
      ''OPENAI_BASE_URL'' \<mapsto> ''https://models.github.ai/inference'']"
  by (simp add: cell_1_def fresh_kernel_def clear_output_def py_not_def getenv_def setenv_def
      env_client_def Let_def)

text \<open>
  C8, for the two assignments. When cell 1 completes without an exception, the credential
  it read was set and not empty, and the environment the cell leaves is the environment
  left by \<open>dotenv.load_dotenv()\<close> (the process environment and whatever the loader took
  from a \<open>.env\<close> file) with exactly two entries written: \<open>OPENAI_API_KEY\<close> holds the value
  of \<open>GITHUB_TOKEN\<close> as it is, and \<open>OPENAI_BASE_URL\<close> holds
  \<open>https://models.github.ai/inference\<close>. After the loader, the cell modifies no other entry.
\<close>

theorem configuration_writes_two_entries:
  assumes "snd (cell_1 load_dotenv OpenAI s) = None"
  shows "\<exists>token. load_dotenv (environ s) ''GITHUB_TOKEN'' = Some token \<and> token \<noteq> [] \<and>
    environ (fst (cell_1 load_dotenv OpenAI s)) =
      (load_dotenv (environ s))
        (''OPENAI_API_KEY'' \<mapsto> token, ''OPENAI_BASE_URL'' \<mapsto> ''https://models.github.ai/inference'')"
  using assms
  by (auto simp add: cell_1_def clear_output_def getenv_def setenv_def py_not_def Let_def
      split: option.splits if_splits sum.splits)

text \<open>With the credential in the process environment and a \<open>.env\<close> file that defines
  \<open>OTHER\<close>, the cell completes; the loader adds \<open>OTHER\<close> and the cell its two entries.\<close>

theorem configuration_writes_two_entries_witness:
  "snd (cell_1 (load_dotenv_file [(''OTHER'', ''x'')]) env_client
          (fresh_kernel\<lparr>environ := [''GITHUB_TOKEN'' \<mapsto> ''token'']\<rparr>)) = None \<and>
   load_dotenv_file [(''OTHER'', ''x'')] [''GITHUB_TOKEN'' \<mapsto> ''token''] =
     [''GITHUB_TOKEN'' \<mapsto> ''token'', ''OTHER'' \<mapsto> ''x''] \<and>
   environ (fst (cell_1 (load_dotenv_file [(''OTHER'', ''x'')]) env_client
                   (fresh_kernel\<lparr>environ := [''GITHUB_TOKEN'' \<mapsto> ''token'']\<rparr>))) =
     [''GITHUB_TOKEN'' \<mapsto> ''token'', ''OTHER'' \<mapsto> ''x'', ''OPENAI_API_KEY'' \<mapsto> ''token'',
      ''OPENAI_BASE_URL'' \<mapsto> ''https://models.github.ai/inference'']"
proof -
  have h: "snd (cell_1 (load_dotenv_file [(''OTHER'', ''x'')]) env_client
                  (fresh_kernel\<lparr>environ := [''GITHUB_TOKEN'' \<mapsto> ''token'']\<rparr>)) = None"
    by (simp add: cell_1_def fresh_kernel_def clear_output_def getenv_def setenv_def py_not_def
        env_client_def Let_def)
  show ?thesis
    using h configuration_writes_two_entries
      [where load_dotenv = "load_dotenv_file [(''OTHER'', ''x'')]" and OpenAI = env_client
         and s = "fresh_kernel\<lparr>environ := [''GITHUB_TOKEN'' \<mapsto> ''token'']\<rparr>", OF h]
    by (auto simp add: fresh_kernel_def)
qed

text \<open>
  A variable that is set to the empty string is not treated as an unset variable when a
  \<open>.env\<close> file defines the credential: the loader leaves the empty value in place, and the
  cell raises; it fills in the unset variable, and the cell completes.
\<close>

theorem empty_variable_counterexample:
  "snd (cell_1 (load_dotenv_file [(''GITHUB_TOKEN'', ''token'')]) env_client
          (fresh_kernel\<lparr>environ := [''GITHUB_TOKEN'' \<mapsto> '''']\<rparr>)) = Some ConfigurationError \<and>
   environ fresh_kernel ''GITHUB_TOKEN'' = None \<and>
   snd (cell_1 (load_dotenv_file [(''GITHUB_TOKEN'', ''token'')]) env_client fresh_kernel) = None"
  by (simp add: cell_1_def fresh_kernel_def clear_output_def py_not_def getenv_def setenv_def
      env_client_def Let_def)

text \<open>
  C9, for the value the check reads. The check is \<open>not os.getenv("GITHUB_TOKEN")\<close>, on the
  environment as \<open>dotenv.load_dotenv()\<close> leaves it: a credential whose value there is the
  empty string is treated as a missing one. In both cases the cell ends with its
  configuration error, having changed nothing but the output area and what the loader
  loaded. With any other value the check is passed: the two entries and \<open>GPT_MODEL\<close> are
  written, and the cell ends as the constructor of the client does.
\<close>

theorem empty_credential_is_unset:
  "(if load_dotenv (environ s) ''GITHUB_TOKEN'' = None \<or> load_dotenv (environ s) ''GITHUB_TOKEN'' = Some []
    then cell_1 load_dotenv OpenAI s =
           (s\<lparr>stdout := [], environ := load_dotenv (environ s)\<rparr>, Some ConfigurationError)
    else GPT_MODEL (fst (cell_1 load_dotenv OpenAI s)) = Some ''openai/gpt-4o-mini'' \<and>
         environ (fst (cell_1 load_dotenv OpenAI s)) ''OPENAI_API_KEY'' =
           load_dotenv (environ s) ''GITHUB_TOKEN'' \<and>
         snd (cell_1 load_dotenv OpenAI s) =
           (case OpenAI (environ (fst (cell_1 load_dotenv OpenAI s))) of Inl e \<Rightarrow> Some e | Inr c \<Rightarrow> None))"
  by (auto simp add: cell_1_def clear_output_def getenv_def setenv_def py_not_def Let_def
      split: option.splits sum.splits)

section \<open>The stream consumer\<close>

text \<open>
  C6. For the request with model \<open>m\<close>, the one user message \<open>1+1?\<close>, temperature 0 and the
  streaming flag, against a stub transport that yields the three fragments
  \<open>{role: assistant}\<close>, \<open>{content: Two}\<close>, \<open>{}\<close>, the consumer ends without an exception,
  the full text is \<open>Two\<close>, and three fragments are logged: \<open>collected_chunks\<close> holds the
  three chunks and three \<open>Message received\<close> lines are printed. This holds for every clock
  and every client, whatever else the notebook state holds.
\<close>

theorem consume_two:
  "(let r = consume (stub_transport (yields two_fragments Closed)) clk what_is_one_plus_one
              (s\<lparr>GPT_MODEL := Some ''m'', client := Some c\<rparr>)
    in snd r = None \<and>
       full_reply_content (fst r) = Some ''Two'' \<and>
       collected_chunks (fst r) = Some two_fragments \<and>
       length two_fragments = 3 \<and>
       length (received (stdout (fst r))) = 3 \<and>
       requests (fst r) =
         requests s @ [\<lparr>model = ''m'', messages = [\<lparr>msg_role = ''user'', msg_content = ''1+1?''\<rparr>],
                         temperature = 0, stream = True\<rparr>])"
  by (simp add: consume_def stub_transport_def yields_def two_fragments_def fragment_def
      what_is_one_plus_one_def create_stream_def time_time_def clear_output_def print_line_def
      after_loop_def content_or_empty_def Let_def)

text \<open>
  The full text is not produced for every sequence of fragments. A chunk whose \<open>choices\<close>
  is empty ends the cell with \<open>IndexError\<close>; and a stream that closes without a chunk
  leaves \<open>chunk_time\<close> unassigned, so that in a kernel where cell 10 has not run before the
  line after the loop ends the cell with \<open>NameError\<close>. In both runs \<open>full_reply_content\<close>
  is never assigned.
\<close>

theorem consume_every_sequence_counterexample:
  "snd (consume (stub_transport (yields [\<lparr>choices = []\<rparr>] Closed)) of_nat what_is_one_plus_one configured)
     = Some IndexError \<and>
   full_reply_content
     (fst (consume (stub_transport (yields [\<lparr>choices = []\<rparr>] Closed)) of_nat what_is_one_plus_one configured))
     = None \<and>
   snd (consume (stub_transport (yields [] Closed)) of_nat what_is_one_plus_one configured)
     = Some (NameError ''chunk_time'') \<and>
   full_reply_content
     (fst (consume (stub_transport (yields [] Closed)) of_nat what_is_one_plus_one configured))
     = None"
  by (simp add: consume_exit [OF opens_stub] consume_text [OF opens_stub] yields_def configured_names)

text \<open>
  C1, for the streams the cell gets through. For every non-empty sequence of chunks, each
  with at least one choice, delivered by a stream that then closes, the cell ends without
  an exception; \<open>full_reply_content\<close> is the concatenation, in arrival order, of the
  contents of the deltas (a delta whose content is absent or empty adds nothing);
  \<open>collected_chunks\<close> holds the chunks in arrival order, one entry per chunk; and one
  \<open>Message received\<close> line is printed per chunk, with the time elapsed since the request
  was submitted and the chunk's delta.
\<close>

theorem consume_returns_concatenation:
  assumes "opens tr msgs s (yields chunks Closed)"
    and "chunks \<noteq> []"
    and "\<forall>c\<in>set chunks. choices c \<noteq> []"
  shows "snd (consume tr clk msgs s) = None \<and>
    full_reply_content (fst (consume tr clk msgs s)) =
      Some (concat (map (\<lambda>c. case content (first_delta c) of None \<Rightarrow> [] | Some x \<Rightarrow> x) chunks)) \<and>
    collected_chunks (fst (consume tr clk msgs s)) = Some chunks \<and>
    received (stdout (fst (consume tr clk msgs s))) =
      zip (map (\<lambda>i. clk (Suc (ticks s) + i) - clk (ticks s)) [0..<length chunks])
          (map first_delta chunks)"
proof -
  let ?st = "yields chunks Closed"
  have good: "\<forall>c\<in>set (delivered ?st). choices c \<noteq> []"
    using assms(3) by (simp add: delivered_yields)
  have a: "accepted ?st = chunks" and p: "pulled ?st = chunks" and e: "loop_exit ?st = None"
    using accepted_good [OF good] pulled_good [OF good] loop_exit_good [OF good]
    by (simp_all add: delivered_yields failure_yields)
  have 1: "snd (consume tr clk msgs s) = None"
    using assms(2) by (simp add: consume_exit [OF assms(1)] e p)
  have c: "content_or_empty = (\<lambda>m. case content m of None \<Rightarrow> [] | Some x \<Rightarrow> x)"
    by (auto simp add: content_or_empty_def fun_eq_iff split: option.splits)
  have 2: "full_reply_content (fst (consume tr clk msgs s)) =
      Some (concat (map (\<lambda>c. case content (first_delta c) of None \<Rightarrow> [] | Some x \<Rightarrow> x) chunks))"
    by (simp add: consume_text [OF assms(1)] 1 a c comp_def)
  have 3: "collected_chunks (fst (consume tr clk msgs s)) = Some chunks"
    by (simp add: consume_chunks [OF assms(1)] p)
  have 4: "received (stdout (fst (consume tr clk msgs s))) =
      zip (map (\<lambda>i. clk (Suc (ticks s) + i) - clk (ticks s)) [0..<length chunks])
          (map first_delta chunks)"
    by (simp only: consume_received [OF assms(1)] a)
  from 1 2 3 4 show ?thesis by blast
qed

theorem consume_returns_concatenation_witness:
  "opens (stub_transport (yields two_fragments Closed)) what_is_one_plus_one configured
     (yields two_fragments Closed) \<and>
   two_fragments \<noteq> [] \<and>
   full_reply_content
     (fst (consume (stub_transport (yields two_fragments Closed)) of_nat what_is_one_plus_one configured))
     = Some ''Two'' \<and>
   map fst (received (stdout
     (fst (consume (stub_transport (yields two_fragments Closed)) of_nat what_is_one_plus_one configured))))
     = [1, 2, 3]"
proof -
  have h1: "opens (stub_transport (yields two_fragments Closed)) what_is_one_plus_one configured
     (yields two_fragments Closed)"
    by (rule opens_stub)
  have h2: "two_fragments \<noteq> []"
    by (simp add: two_fragments_def)
  have h3: "\<forall>c\<in>set two_fragments. choices c \<noteq> []"
    by (simp add: two_fragments_def fragment_def)
  have n: "[0..<3] = [0, 1, 2]"
    by (simp add: upt_conv_Cons)
  show ?thesis
    using h1 h2 consume_returns_concatenation [OF h1 h2 h3, of of_nat]
    by (simp add: two_fragments_def fragment_def first_delta_def configured_names n)
qed

text \<open>
  C4. In every run of the cell the elapsed times printed are non-decreasing, provided the
  clock is non-decreasing from one reading to the next. When the request is answered with
  a stream, the log keeps the arrival order: \<open>collected_chunks\<close> is an initial segment of
  the chunks of the stream, the \<open>i\<close>-th printed line carries the delta of the \<open>i\<close>-th
  chunk, and its time is the \<open>i\<close>-th reading of the clock after the request minus the
  reading at submission. This holds however the run ends.
\<close>

theorem consume_log_is_ordered:
  assumes "mono clk"
  shows "sorted (map fst (received (stdout (fst (consume tr clk msgs s))))) \<and>
    (opens tr msgs s st \<longrightarrow>
       (\<exists>n. collected_chunks (fst (consume tr clk msgs s)) = Some (take n (delivered st))) \<and>
       map snd (received (stdout (fst (consume tr clk msgs s)))) =
         map first_delta (take (length (received (stdout (fst (consume tr clk msgs s))))) (delivered st)) \<and>
       map fst (received (stdout (fst (consume tr clk msgs s)))) =
         map (\<lambda>i. clk (Suc (ticks s) + i) - clk (ticks s))
           [0..<length (received (stdout (fst (consume tr clk msgs s))))])"
proof -
  let ?log = "received (stdout (fst (consume tr clk msgs s)))"
  have times: "map fst ?log = map (\<lambda>i. clk (Suc (ticks s) + i) - clk (ticks s)) [0..<length ?log]"
    and deltas: "map snd ?log = map first_delta (take (length ?log) (delivered st'))"
    and chunks: "\<exists>n. collected_chunks (fst (consume tr clk msgs s)) = Some (take n (delivered st'))"
    if "opens tr msgs s st'" for st'
  proof -
    have r: "?log = zip (map (\<lambda>i. clk (Suc (ticks s) + i) - clk (ticks s)) [0..<length (accepted st')])
                       (map first_delta (accepted st'))"
      by (rule consume_received [OF that])
    then have n: "length ?log = length (accepted st')"
      by simp
    show "map fst ?log = map (\<lambda>i. clk (Suc (ticks s) + i) - clk (ticks s)) [0..<length ?log]"
      unfolding n by (subst r) simp
    show "map snd ?log = map first_delta (take (length ?log) (delivered st'))"
      unfolding n by (subst r) (simp add: accepted_prefix [symmetric])
    have "collected_chunks (fst (consume tr clk msgs s)) =
            Some (take (Suc (length (accepted st'))) (delivered st'))"
      by (simp add: consume_chunks [OF that] pulled_take [symmetric])
    then show "\<exists>n. collected_chunks (fst (consume tr clk msgs s)) = Some (take n (delivered st'))"
      by blast
  qed
  have "sorted (map fst ?log)"
  proof (cases "\<exists>st'. opens tr msgs s st'")
    case True
    then obtain st' where "opens tr msgs s st'" ..
    then show ?thesis
      using times [of st'] mono_elapsed_sorted [OF assms, of "Suc (ticks s)" "clk (ticks s)" "length ?log"]
      by simp
  next
    case False
    then show ?thesis
      by (simp add: consume_not_opened(1))
  qed
  with times [of st] deltas [of st] chunks [of st] show ?thesis
    by blast
qed

theorem consume_log_is_ordered_witness:
  "mono (of_nat :: clock) \<and>
   opens (stub_transport (yields two_fragments (Broken (TransportError ''reset'')))) what_is_one_plus_one
     configured (yields two_fragments (Broken (TransportError ''reset''))) \<and>
   sorted (map fst (received (stdout
     (fst (consume (stub_transport (yields two_fragments (Broken (TransportError ''reset'')))) of_nat
             what_is_one_plus_one configured))))) \<and>
   map fst (received (stdout
     (fst (consume (stub_transport (yields two_fragments (Broken (TransportError ''reset'')))) of_nat
             what_is_one_plus_one configured)))) = [1, 2, 3]"
proof -
  let ?st = "yields two_fragments (Broken (TransportError ''reset''))"
  have h: "mono (of_nat :: clock)"
    by (simp add: mono_def)
  have o: "opens (stub_transport ?st) what_is_one_plus_one configured ?st"
    by (rule opens_stub)
  have n: "length (received (stdout (fst (consume (stub_transport ?st) of_nat what_is_one_plus_one configured)))) = 3"
    by (subst consume_received [OF o]) (simp add: yields_def two_fragments_def fragment_def)
  have u: "[0..<3] = [0, 1, 2]"
    by (simp add: upt_conv_Cons)
  show ?thesis
    using h o consume_log_is_ordered [OF h, of "stub_transport ?st" what_is_one_plus_one configured ?st]
    by (simp add: n u configured_names)
qed

text \<open>
  C5. If the transport raises after delivering exactly two fragments (both received, that
  is, each with a choice, so that the loop reaches the third pull), the exception leaves
  the cell as the transport raised it. Nothing is retried: exactly one request has been
  sent. At that point \<open>collected_chunks\<close> and \<open>collected_messages\<close> hold exactly the two
  entries of the fragments received, two lines have been printed, and no full text has
  been assigned.
\<close>

theorem consume_propagates_transport_error:
  assumes "opens tr msgs s (yields [c1, c2] (Broken e))"
    and "choices c1 \<noteq> []" and "choices c2 \<noteq> []"
  shows "snd (consume tr clk msgs s) = Some e \<and>
    collected_chunks (fst (consume tr clk msgs s)) = Some [c1, c2] \<and>
    collected_messages (fst (consume tr clk msgs s)) = Some [first_delta c1, first_delta c2] \<and>
    map snd (received (stdout (fst (consume tr clk msgs s)))) = [first_delta c1, first_delta c2] \<and>
    length (requests (fst (consume tr clk msgs s))) = Suc (length (requests s)) \<and>
    full_reply_content (fst (consume tr clk msgs s)) = full_reply_content s"
proof -
  let ?st = "yields [c1, c2] (Broken e)"
  have st: "loop_exit ?st = Some e" "pulled ?st = [c1, c2]" "accepted ?st = [c1, c2]"
    using assms(2,3) by (simp_all add: yields_def)
  from assms(1) obtain m where m: "GPT_MODEL s = Some m"
    by (auto simp add: opens_def split: option.splits)
  have 1: "snd (consume tr clk msgs s) = Some e"
    by (simp add: consume_exit [OF assms(1)] st)
  have 2: "collected_chunks (fst (consume tr clk msgs s)) = Some [c1, c2]"
    by (simp add: consume_chunks [OF assms(1)] st)
  have 3: "collected_messages (fst (consume tr clk msgs s)) = Some [first_delta c1, first_delta c2]"
    by (simp add: consume_messages [OF assms(1)] st)
  have u: "[0..<2] = [0, 1]"
    by (simp add: upt_conv_Cons)
  have 4: "map snd (received (stdout (fst (consume tr clk msgs s)))) = [first_delta c1, first_delta c2]"
    by (simp add: consume_received [OF assms(1)] st u)
  have 5: "length (requests (fst (consume tr clk msgs s))) = Suc (length (requests s))"
    by (simp add: consume_requests [OF assms(1) m])
  have 6: "full_reply_content (fst (consume tr clk msgs s)) = full_reply_content s"
    by (simp add: consume_text [OF assms(1)] 1)
  from 1 2 3 4 5 6 show ?thesis by blast
qed

theorem consume_propagates_transport_error_witness:
  "opens (stub_transport (yields [fragment (Some ''assistant'') None, fragment None (Some ''Two'')]
                            (Broken (TransportError ''connection reset''))))
     what_is_one_plus_one configured
     (yields [fragment (Some ''assistant'') None, fragment None (Some ''Two'')]
        (Broken (TransportError ''connection reset''))) \<and>
   snd (consume (stub_transport (yields [fragment (Some ''assistant'') None, fragment None (Some ''Two'')]
                                   (Broken (TransportError ''connection reset''))))
          of_nat what_is_one_plus_one configured) = Some (TransportError ''connection reset'') \<and>
   collected_chunks
     (fst (consume (stub_transport (yields [fragment (Some ''assistant'') None, fragment None (Some ''Two'')]
                                      (Broken (TransportError ''connection reset''))))
             of_nat what_is_one_plus_one configured)) =
     Some [fragment (Some ''assistant'') None, fragment None (Some ''Two'')]"
proof -
  let ?st = "yields [fragment (Some ''assistant'') None, fragment None (Some ''Two'')]
               (Broken (TransportError ''connection reset''))"
  have h1: "opens (stub_transport ?st) what_is_one_plus_one configured ?st"
    by (rule opens_stub)
  have h2: "choices (fragment (Some ''assistant'') None) \<noteq> []"
    by (simp add: fragment_def)
  have h3: "choices (fragment None (Some ''Two'')) \<noteq> []"
    by (simp add: fragment_def)
  show ?thesis
    using h1 consume_propagates_transport_error [OF h1 h2 h3, of of_nat]
    by simp
qed


text \<open>
  A chunk whose \<open>choices\<close> is empty does leave an entry in the log: the loop appends the
  chunk to \<open>collected_chunks\<close> before it evaluates \<open>chunk.choices[0]\<close>.
\<close>

theorem empty_choices_counterexample:
  "snd (consume (stub_transport (yields [\<lparr>choices = []\<rparr>] Closed)) of_nat what_is_one_plus_one configured)
     = Some IndexError \<and>
   collected_chunks
     (fst (consume (stub_transport (yields [\<lparr>choices = []\<rparr>] Closed)) of_nat what_is_one_plus_one configured))
     = Some [\<lparr>choices = []\<rparr>]"
  by (simp add: consume_exit [OF opens_stub] consume_chunks [OF opens_stub] yields_def)

text \<open>
  C10, as the cell behaves. The delta is taken by the unguarded \<open>chunk.choices[0]\<close>. When
  every chunk of the stream has a choice, the access never fails: every chunk and its delta
  are collected, and a run that received a chunk ends as the stream does. Otherwise the first chunk whose \<open>choices\<close> is empty ends the loop with \<open>IndexError\<close>,
  not with an exception of the transport: that chunk is the last entry of
  \<open>collected_chunks\<close>, and no delta is collected and no line printed for it.
\<close>

theorem consume_choices_access:
  assumes "opens tr msgs s st"
  shows "if \<forall>c\<in>set (delivered st). choices c \<noteq> []
    then collected_chunks (fst (consume tr clk msgs s)) = Some (delivered st) \<and>
         collected_messages (fst (consume tr clk msgs s)) = Some (map first_delta (delivered st)) \<and>
         (delivered st \<noteq> [] \<longrightarrow> snd (consume tr clk msgs s) = failure st)
    else snd (consume tr clk msgs s) = Some IndexError \<and>
         collected_chunks (fst (consume tr clk msgs s)) =
           Some (take (Suc (length (takeWhile (\<lambda>c. choices c \<noteq> []) (delivered st)))) (delivered st)) \<and>
         choices (last (the (collected_chunks (fst (consume tr clk msgs s))))) = [] \<and>
         collected_messages (fst (consume tr clk msgs s)) =
           Some (map first_delta (takeWhile (\<lambda>c. choices c \<noteq> []) (delivered st))) \<and>
         map snd (received (stdout (fst (consume tr clk msgs s)))) =
           map first_delta (takeWhile (\<lambda>c. choices c \<noteq> []) (delivered st))"
proof (cases "\<forall>c\<in>set (delivered st). choices c \<noteq> []")
  case True
  have 1: "delivered st \<noteq> [] \<longrightarrow> snd (consume tr clk msgs s) = failure st"
    by (auto simp add: consume_exit [OF assms] loop_exit_good [OF True] pulled_good [OF True]
        split: option.splits)
  have 2: "collected_chunks (fst (consume tr clk msgs s)) = Some (delivered st)"
    by (simp add: consume_chunks [OF assms] pulled_good [OF True])
  have 3: "collected_messages (fst (consume tr clk msgs s)) = Some (map first_delta (delivered st))"
    by (simp add: consume_messages [OF assms] accepted_good [OF True])
  from 1 2 3 show ?thesis
    by (subst if_P [OF True]) blast
next
  case False
  let ?gs = "takeWhile (\<lambda>c. choices c \<noteq> []) (delivered st)"
  have 1: "snd (consume tr clk msgs s) = Some IndexError"
    by (simp add: consume_exit [OF assms] loop_exit_bad [OF False])
  have 2: "collected_chunks (fst (consume tr clk msgs s)) = Some (take (Suc (length ?gs)) (delivered st))"
    by (simp add: consume_chunks [OF assms] accepted_takeWhile [symmetric] pulled_take [symmetric])
  have 3: "choices (last (the (collected_chunks (fst (consume tr clk msgs s))))) = []"
    using pulled_last_bad [OF False] by (simp add: consume_chunks [OF assms])
  have 4: "collected_messages (fst (consume tr clk msgs s)) = Some (map first_delta ?gs)"
    by (simp add: consume_messages [OF assms] accepted_takeWhile [symmetric])
  have 5: "map snd (received (stdout (fst (consume tr clk msgs s)))) = map first_delta ?gs"
    by (simp add: consume_received [OF assms] accepted_takeWhile [symmetric])
  from 1 2 3 4 5 show ?thesis
    by (subst if_not_P [OF False]) blast
qed

theorem consume_choices_access_witness:
  "opens (stub_transport (yields two_fragments Closed)) what_is_one_plus_one configured
     (yields two_fragments Closed) \<and>
   snd (consume (stub_transport (yields two_fragments Closed)) of_nat what_is_one_plus_one configured) = None \<and>
   snd (consume (stub_transport (yields [fragment None (Some ''Two''), \<lparr>choices = []\<rparr>, fragment None None] Closed))
          of_nat what_is_one_plus_one configured) = Some IndexError \<and>
   collected_chunks
     (fst (consume (stub_transport (yields [fragment None (Some ''Two''), \<lparr>choices = []\<rparr>, fragment None None] Closed))
             of_nat what_is_one_plus_one configured)) =
     Some [fragment None (Some ''Two''), \<lparr>choices = []\<rparr>] \<and>
   collected_messages
     (fst (consume (stub_transport (yields [fragment None (Some ''Two''), \<lparr>choices = []\<rparr>, fragment None None] Closed))
             of_nat what_is_one_plus_one configured)) =
     Some [\<lparr>role = None, content = Some ''Two''\<rparr>]"
proof -
  let ?good = "yields two_fragments Closed"
  let ?bad = "yields [fragment None (Some ''Two''), \<lparr>choices = []\<rparr>, fragment None None] Closed"
  have h1: "opens (stub_transport ?good) what_is_one_plus_one configured ?good"
    by (rule opens_stub)
  have h2: "opens (stub_transport ?bad) what_is_one_plus_one configured ?bad"
    by (rule opens_stub)
  have g: "\<forall>c\<in>set (delivered ?good). choices c \<noteq> []" "delivered ?good \<noteq> []" "failure ?good = None"
    by (simp_all add: delivered_yields failure_yields two_fragments_def fragment_def)
  have b: "\<not> (\<forall>c\<in>set (delivered ?bad). choices c \<noteq> [])"
    by (simp add: delivered_yields)
  have 1: "snd (consume (stub_transport ?good) of_nat what_is_one_plus_one configured) = None"
    using consume_choices_access [OF h1, of of_nat, unfolded if_P [OF g(1)]] g(2,3) by simp
  have 2: "snd (consume (stub_transport ?bad) of_nat what_is_one_plus_one configured) = Some IndexError \<and>
     collected_chunks (fst (consume (stub_transport ?bad) of_nat what_is_one_plus_one configured)) =
       Some [fragment None (Some ''Two''), \<lparr>choices = []\<rparr>] \<and>
     collected_messages (fst (consume (stub_transport ?bad) of_nat what_is_one_plus_one configured)) =
       Some [\<lparr>role = None, content = Some ''Two''\<rparr>]"
    using consume_choices_access [OF h2, of of_nat, unfolded if_not_P [OF b]]
    by (simp add: delivered_yields fragment_def first_delta_def)
  from h1 1 2 show ?thesis by blast
qed

end
